theory Spec2Isabelle
  imports Main
begin

section \<open>Values read from the configuration file\<close>

text \<open>
  The objects that \<open>yaml.safe_load\<close> hands to \<open>Aggregator.from_file\<close>, and that a
  caller can hand to the constructors: scalars, lists, tuples, sets and dicts. A dict is kept
  as the list of its entries in insertion order, which is the order \<open>list(item)\<close> and
  \<open>item.values()\<close> enumerate; a set is kept as its elements in the order its iteration
  gives them. A string is kept as the bytes of its UTF-8 encoding, a bytes object as its
  bytes. Of the scalars, \<open>None\<close>, booleans, integers, strings and bytes are represented;
  the loader treats a float or a timestamp as it treats an integer (it cannot be subscripted
  or iterated, and it is not accepted where a string is declared).
\<close>

datatype pyval =
    PNone
  | PBool bool
  | PInt int
  | PStr string
  | PBytes string
  | PList "pyval list"
  | PTuple "pyval list"
  | PSet "pyval list"
  | PDict "(pyval \<times> pyval) list"

text \<open>
  The exceptions that can arise inside the \<open>try\<close> block of \<open>from_file\<close>. \<open>IOError\<close>
  stands for whatever \<open>open\<close> or \<open>yaml.safe_load\<close> raised and carries its text.
\<close>

datatype exn =
    KeyError string
  | TypeError string
  | IndexError string
  | AttributeError string
  | IOError string

definition quoted :: "string \<Rightarrow> string" where
  "quoted s = CHR 0x27 # s @ [CHR 0x27]"

fun str_exn :: "exn \<Rightarrow> string" where
  "str_exn (KeyError k) = quoted k"
| "str_exn (TypeError m) = m"
| "str_exn (IndexError m) = m"
| "str_exn (AttributeError m) = m"
| "str_exn (IOError m) = m"

fun type_name :: "pyval \<Rightarrow> string" where
  "type_name PNone = ''NoneType''"
| "type_name (PBool b) = ''bool''"
| "type_name (PInt i) = ''int''"
| "type_name (PStr s) = ''str''"
| "type_name (PBytes b) = ''bytes''"
| "type_name (PList xs) = ''list''"
| "type_name (PTuple xs) = ''tuple''"
| "type_name (PSet xs) = ''set''"
| "type_name (PDict kvs) = ''dict''"

text \<open>\<open>obj[key]\<close> for a string key.\<close>

fun py_getitem :: "pyval \<Rightarrow> string \<Rightarrow> exn + pyval" where
  "py_getitem (PDict kvs) k =
     (case map_of kvs (PStr k) of None \<Rightarrow> Inl (KeyError k) | Some v \<Rightarrow> Inr v)"
| "py_getitem (PList xs) k =
     Inl (TypeError ''list indices must be integers or slices, not str'')"
| "py_getitem (PTuple xs) k =
     Inl (TypeError ''tuple indices must be integers or slices, not str'')"
| "py_getitem (PStr s) k =
     Inl (TypeError (''string indices must be integers, not '' @ quoted ''str''))"
| "py_getitem (PBytes b) k =
     Inl (TypeError ''byte indices must be integers or slices, not str'')"
| "py_getitem v k =
     Inl (TypeError (quoted (type_name v) @ '' object is not subscriptable''))"

text \<open>
  \<open>list(obj)\<close>, also the sequence a \<open>for\<close> loop runs over: the elements of a list, a
  tuple or a set, the keys of a dict, the characters of a string, the bytes of a bytes object
  as integers.
\<close>

fun py_list :: "pyval \<Rightarrow> exn + pyval list" where
  "py_list (PList xs) = Inr xs"
| "py_list (PTuple xs) = Inr xs"
| "py_list (PSet xs) = Inr xs"
| "py_list (PDict kvs) = Inr (map fst kvs)"
| "py_list (PStr s) = Inr (map (\<lambda>c. PStr [c]) s)"
| "py_list (PBytes b) = Inr (map (\<lambda>c. PInt (of_char c)) b)"
| "py_list v = Inl (TypeError (quoted (type_name v) @ '' object is not iterable''))"

text \<open>\<open>list(obj.values())\<close>.\<close>

fun py_values :: "pyval \<Rightarrow> exn + pyval list" where
  "py_values (PDict kvs) = Inr (map snd kvs)"
| "py_values v =
     Inl (AttributeError (quoted (type_name v) @ '' object has no attribute '' @ quoted ''values''))"

text \<open>\<open>xs[0]\<close>.\<close>

fun py_index0 :: "'a list \<Rightarrow> exn + 'a" where
  "py_index0 [] = Inl (IndexError ''list index out of range'')"
| "py_index0 (x # xs) = Inr x"

section \<open>Data model\<close>

record AggregationItem =
  name :: string
  components :: "string list"

record Aggregator =
  file' :: string
  dimension :: string
  mapping :: "AggregationItem list"

text \<open>
  Validation failures. A line error is one entry of a pydantic \<open>ValidationError\<close>, located
  by the path of fields and list positions that leads to the offending value. The custom
  error \<open>AggregationMappingConflict\<close> carries the context dict that \<open>_validate_items\<close>
  builds: the conflict type, the duplicates and the file.
\<close>

datatype loc_item = Attr string | Index nat

type_synonym loc = "loc_item list"

datatype custom_error =
  AggregationMappingConflict (conflict_type: string) (duplicates: "string list") (conflict_file: string)

datatype line_error =
    path_not_file loc
  | string_type loc
  | string_unicode loc
  | list_type loc
  | custom loc custom_error

datatype error =
    Uncaught exn
  | ValueError string
  | PydanticCustomError custom_error
  | ValidationError "line_error list"

text \<open>The conflicts reported by the outcome of a construction.\<close>

fun line_conflicts :: "line_error list \<Rightarrow> custom_error list" where
  "line_conflicts [] = []"
| "line_conflicts (custom l c # es) = c # line_conflicts es"
| "line_conflicts (e # es) = line_conflicts es"

fun conflicts_of :: "error + 'a \<Rightarrow> custom_error list" where
  "conflicts_of (Inl (ValidationError es)) = line_conflicts es"
| "conflicts_of r = []"

record ValidationInfo =
  data :: "string \<rightharpoonup> string"

section \<open>Duplicate detection\<close>

text \<open>
  \<open>Counter(items)\<close> counts the elements one after the other; a new element is entered
  behind the ones already there, so \<open>.items()\<close> lists the distinct elements in the order of
  their first occurrence.
\<close>

fun Counter_add :: "('a \<times> nat) list \<Rightarrow> 'a \<Rightarrow> ('a \<times> nat) list" where
  "Counter_add [] x = [(x, 1)]"
| "Counter_add ((k, n) # kvs) x =
     (if k = x then (k, Suc n) # kvs else (k, n) # Counter_add kvs x)"

definition Counter :: "'a list \<Rightarrow> ('a \<times> nat) list" where
  "Counter items = foldl Counter_add [] items"

text \<open>\<open>[item for item, count in Counter(items).items() if count > 1]\<close>\<close>

definition find_duplicates :: "'a list \<Rightarrow> 'a list" where
  "find_duplicates items = map fst (filter (\<lambda>(item, count). count > 1) (Counter items))"

definition validate_items :: "string list \<Rightarrow> ValidationInfo \<Rightarrow> string \<Rightarrow> error + unit" where
  "validate_items items info type =
     (let dups = find_duplicates items in
      if dups \<noteq> [] then
        (case data info ''file'' of
           None \<Rightarrow> Inl (Uncaught (KeyError ''file''))
         | Some f \<Rightarrow> Inl (PydanticCustomError (AggregationMappingConflict type dups f)))
      else Inr ())"

definition validate_target_names ::
  "AggregationItem list \<Rightarrow> ValidationInfo \<Rightarrow> error + AggregationItem list" where
  "validate_target_names v info =
     (case validate_items (map name v) info ''target'' of
        Inl e \<Rightarrow> Inl e
      | Inr u \<Rightarrow> Inr v)"

fun extend_all :: "string list \<Rightarrow> AggregationItem list \<Rightarrow> string list" where
  "extend_all all_components [] = all_components"
| "extend_all all_components (item # v) = extend_all (all_components @ components item) v"

definition validate_components ::
  "AggregationItem list \<Rightarrow> ValidationInfo \<Rightarrow> error + AggregationItem list" where
  "validate_components v info =
     (case validate_items (extend_all [] v) info ''component'' of
        Inl e \<Rightarrow> Inl e
      | Inr u \<Rightarrow> Inr v)"

section \<open>Construction\<close>

text \<open>
  Type validation of the declared fields: \<open>name: str\<close>, \<open>components: list[str]\<close>,
  \<open>dimension: str\<close>, \<open>mapping: list[AggregationItem]\<close>, in pydantic's default (lax) mode.
  A field declared \<open>str\<close> takes a string, and a bytes object that decodes as UTF-8; a field
  declared \<open>list[str]\<close> takes a list, a tuple or a set of such values. Any other value gives
  a line error at its location; the errors of all fields and all list elements are collected.
\<close>

text \<open>
  Well-formed UTF-8, read byte by byte: \<open>utf8_from k lo hi bs\<close> expects \<open>k\<close> more
  continuation bytes, the next of them between \<open>lo\<close> and \<open>hi\<close>.
\<close>

fun utf8_from :: "nat \<Rightarrow> nat \<Rightarrow> nat \<Rightarrow> nat list \<Rightarrow> bool" where
  "utf8_from 0 lo hi [] = True"
| "utf8_from (Suc k) lo hi [] = False"
| "utf8_from (Suc k) lo hi (b # bs) = (lo \<le> b \<and> b \<le> hi \<and> utf8_from k 0x80 0xBF bs)"
| "utf8_from 0 lo hi (b # bs) =
     (if b < 0x80 then utf8_from 0 0x80 0xBF bs
      else if 0xC2 \<le> b \<and> b \<le> 0xDF then utf8_from 1 0x80 0xBF bs
      else if b = 0xE0 then utf8_from 2 0xA0 0xBF bs
      else if b = 0xED then utf8_from 2 0x80 0x9F bs
      else if 0xE1 \<le> b \<and> b \<le> 0xEF then utf8_from 2 0x80 0xBF bs
      else if b = 0xF0 then utf8_from 3 0x90 0xBF bs
      else if 0xF1 \<le> b \<and> b \<le> 0xF3 then utf8_from 3 0x80 0xBF bs
      else if b = 0xF4 then utf8_from 3 0x80 0x8F bs
      else False)"

definition utf8 :: "string \<Rightarrow> bool" where
  "utf8 b = utf8_from 0 0x80 0xBF (map of_char b)"

fun validate_str :: "loc \<Rightarrow> pyval \<Rightarrow> line_error list + string" where
  "validate_str l (PStr s) = Inr s"
| "validate_str l (PBytes b) = (if utf8 b then Inr b else Inl [string_unicode l])"
| "validate_str l v = Inl [string_type l]"

fun both :: "line_error list + 'a \<Rightarrow> line_error list + 'b \<Rightarrow> line_error list + 'a \<times> 'b" where
  "both (Inr a) (Inr b) = Inr (a, b)"
| "both (Inl e) (Inr b) = Inl e"
| "both (Inr a) (Inl e) = Inl e"
| "both (Inl e) (Inl e') = Inl (e @ e')"

fun validate_strs :: "loc \<Rightarrow> nat \<Rightarrow> pyval list \<Rightarrow> line_error list + string list" where
  "validate_strs l i [] = Inr []"
| "validate_strs l i (x # xs) =
     map_sum id (\<lambda>(s, ss). s # ss)
       (both (validate_str (l @ [Index i]) x) (validate_strs l (Suc i) xs))"

fun validate_str_list :: "loc \<Rightarrow> pyval \<Rightarrow> line_error list + string list" where
  "validate_str_list l (PList xs) = validate_strs l 0 xs"
| "validate_str_list l (PTuple xs) = validate_strs l 0 xs"
| "validate_str_list l (PSet xs) = validate_strs l 0 xs"
| "validate_str_list l v = Inl [list_type l]"

definition AggregationItem_init ::
  "loc \<Rightarrow> pyval \<Rightarrow> pyval \<Rightarrow> line_error list + AggregationItem" where
  "AggregationItem_init l n c =
     map_sum id (\<lambda>(n', c'). \<lparr>name = n', components = c'\<rparr>)
       (both (validate_str (l @ [Attr ''name'']) n)
             (validate_str_list (l @ [Attr ''components'']) c))"

fun validate_mapping_list ::
  "loc \<Rightarrow> nat \<Rightarrow> (pyval \<times> pyval) list \<Rightarrow> line_error list + AggregationItem list" where
  "validate_mapping_list l i [] = Inr []"
| "validate_mapping_list l i ((n, c) # rest) =
     map_sum id (\<lambda>(item, items). item # items)
       (both (AggregationItem_init (l @ [Index i]) n c) (validate_mapping_list l (Suc i) rest))"

text \<open>
  The two field validators of \<open>mapping\<close> run in the order of their definition in the class,
  each on the value the one before returned; an exception of the first ends the validation of
  the field.
\<close>

definition mapping_validators ::
  "AggregationItem list \<Rightarrow> ValidationInfo \<Rightarrow> error + AggregationItem list" where
  "mapping_validators v info =
     (case validate_target_names v info of
        Inl e \<Rightarrow> Inl e
      | Inr v' \<Rightarrow> validate_components v' info)"

fun errors_of :: "line_error list + 'a \<Rightarrow> line_error list" where
  "errors_of (Inl es) = es"
| "errors_of (Inr a) = []"

text \<open>
  \<open>Aggregator(file=f, dimension=d, mapping=m)\<close>. The fields are validated in the order of
  their declaration, \<open>file\<close>, \<open>dimension\<close>, \<open>mapping\<close>, and \<open>info.data\<close> holds the fields
  that passed so far. \<open>file\<close> is declared \<open>FilePath\<close>: it passes when the file system,
  the parameter \<open>is_file\<close>, has a file at the path; otherwise it gives a line error and is
  missing from \<open>info.data\<close>. A \<open>PydanticCustomError\<close> of a validator becomes a line error of
  the field, any other exception leaves the constructor as it is. \<open>m\<close> is the list of
  \<open>dict(name=..., components=...)\<close> entries.
\<close>

definition Aggregator_init ::
  "(string \<Rightarrow> bool) \<Rightarrow> string \<Rightarrow> pyval \<Rightarrow> (pyval \<times> pyval) list \<Rightarrow> error + Aggregator" where
  "Aggregator_init is_file f d m =
     (let file_errors = (if is_file f then [] else [path_not_file [Attr ''file'']]);
          dim = validate_str [Attr ''dimension''] d;
          info = \<lparr>data = (if is_file f then [''file'' \<mapsto> f] else Map.empty) ++
                          (case dim of Inl es \<Rightarrow> Map.empty | Inr d' \<Rightarrow> [''dimension'' \<mapsto> d'])\<rparr>
      in case validate_mapping_list [Attr ''mapping''] 0 m of
           Inl es \<Rightarrow> Inl (ValidationError (file_errors @ errors_of dim @ es))
         | Inr v \<Rightarrow>
             (case mapping_validators v info of
                Inl (PydanticCustomError c) \<Rightarrow>
                  Inl (ValidationError
                         (file_errors @ errors_of dim @ [custom [Attr ''mapping''] c]))
              | Inl e \<Rightarrow> Inl e
              | Inr v' \<Rightarrow>
                  (case dim of
                     Inl es \<Rightarrow> Inl (ValidationError (file_errors @ es))
                   | Inr d' \<Rightarrow>
                       if is_file f then Inr \<lparr>file' = f, dimension = d', mapping = v'\<rparr>
                       else Inl (ValidationError file_errors))))"

section \<open>The derived rename mapping\<close>

fun assign_components :: "(string \<rightharpoonup> string) \<Rightarrow> string \<Rightarrow> string list \<Rightarrow> (string \<rightharpoonup> string)" where
  "assign_components rename_dict n [] = rename_dict"
| "assign_components rename_dict n (c # cs) = assign_components (rename_dict(c \<mapsto> n)) n cs"

fun assign_items :: "(string \<rightharpoonup> string) \<Rightarrow> AggregationItem list \<Rightarrow> (string \<rightharpoonup> string)" where
  "assign_items rename_dict [] = rename_dict"
| "assign_items rename_dict (item # items) =
     assign_items (assign_components rename_dict (name item) (components item)) items"

definition rename_mapping :: "Aggregator \<Rightarrow> (string \<rightharpoonup> string)" where
  "rename_mapping self = assign_items Map.empty (mapping self)"

section \<open>Applying the mapping\<close>

text \<open>
  \<open>apply\<close> hands the dataset, the dict \<open>{self.dimension: self.rename_mapping}\<close> and
  \<open>check_duplicates=False\<close> to the dataset's own \<open>rename\<close>, which is the parameter
  \<open>rename\<close> here. The method is written in state-passing style: it returns the Aggregator
  after the call together with the value returned.
\<close>

definition apply' ::
  "('df \<Rightarrow> (string \<rightharpoonup> (string \<rightharpoonup> string)) \<Rightarrow> bool \<Rightarrow> 'r) \<Rightarrow> Aggregator \<Rightarrow> 'df \<Rightarrow> Aggregator \<times> 'r" where
  "apply' rename self df = (self, rename df [dimension self \<mapsto> rename_mapping self] False)"

section \<open>Loading from a file\<close>

text \<open>
  The world outside: \<open>open_load p\<close> is what opening \<open>p\<close> and \<open>yaml.safe_load\<close> come to, the
  text of the exception raised or the object loaded; \<open>get_relative_path\<close> is the provenance
  helper of \<open>nomenclature.processor.utils\<close>. When \<open>from_file\<close> calls the constructor it has
  just opened and read the file, so of the file system the constructor sees that the relative
  path of this file is a file.
\<close>

record env =
  open_load :: "string \<Rightarrow> string + pyval"
  get_relative_path :: "string \<Rightarrow> string"

text \<open>One entry: \<open>dict(name=list(item)[0], components=list(item.values())[0])\<close>.\<close>

definition mapping_entry :: "pyval \<Rightarrow> exn + (pyval \<times> pyval)" where
  "mapping_entry item =
     (case py_list item of
        Inl e \<Rightarrow> Inl e
      | Inr keys \<Rightarrow>
          (case py_index0 keys of
             Inl e \<Rightarrow> Inl e
           | Inr n \<Rightarrow>
               (case py_values item of
                  Inl e \<Rightarrow> Inl e
                | Inr vals \<Rightarrow>
                    (case py_index0 vals of
                       Inl e \<Rightarrow> Inl e
                     | Inr c \<Rightarrow> Inr (n, c)))))"

fun append_entries :: "(pyval \<times> pyval) list \<Rightarrow> pyval list \<Rightarrow> exn + (pyval \<times> pyval) list" where
  "append_entries mapping_list [] = Inr mapping_list"
| "append_entries mapping_list (item # items) =
     (case mapping_entry item of
        Inl e \<Rightarrow> Inl e
      | Inr d \<Rightarrow> append_entries (mapping_list @ [d]) items)"

text \<open>The body of the \<open>try\<close> block.\<close>

definition try_body :: "env \<Rightarrow> string \<Rightarrow> exn + (pyval \<times> (pyval \<times> pyval) list)" where
  "try_body w f =
     (case open_load w f of
        Inl msg \<Rightarrow> Inl (IOError msg)
      | Inr mapping_input \<Rightarrow>
          (case py_getitem mapping_input ''aggregate'' of
             Inl e \<Rightarrow> Inl e
           | Inr agg \<Rightarrow>
               (case py_list agg of
                  Inl e \<Rightarrow> Inl e
                | Inr items \<Rightarrow>
                    (case append_entries [] items of
                       Inl e \<Rightarrow> Inl e
                     | Inr mapping_list \<Rightarrow> Inr (mapping_input, mapping_list)))))"

definition from_file :: "env \<Rightarrow> string \<Rightarrow> error + Aggregator" where
  "from_file w f =
     (case try_body w f of
        Inl e \<Rightarrow> Inl (ValueError (str_exn e @ '' in '' @ get_relative_path w f))
      | Inr (mapping_input, mapping_list) \<Rightarrow>
          (case py_getitem mapping_input ''dimension'' of
             Inl e \<Rightarrow> Inl (Uncaught e)
           | Inr d \<Rightarrow>
               Aggregator_init (\<lambda>p. p = get_relative_path w f) (get_relative_path w f) d
                 mapping_list))"

section \<open>The dataset\<close>

text \<open>
  Modelled from the spec: the dataset abstraction (\<open>IamDataFrame\<close> of pyam) and its
  \<open>rename\<close> operation are not among the sources. The spec asks of it that renaming a
  dimension replaces the labels that are keys of the mapping and leaves every other label as
  it is, that it returns a new dataset and does not change the one it was given, and that
  it checks for duplicate rows only when asked to. A dataset is a list of rows, a row gives
  each dimension its label, and datasets live in a store of objects; a reference to a
  dataset is its position in the store, below the length of the store.
\<close>

type_synonym row = "(string \<times> string) list"

type_synonym IamDataFrame = "row list"

type_synonym store = "IamDataFrame list"

datatype rename_error = DuplicateRows

text \<open>
  Modelled from the spec: the new label of one entry of a row under the dict that \<open>rename\<close>
  receives. A dimension that the dict does not name and a label that is no key of the
  mapping of its dimension stay as they are.
\<close>

definition relabel :: "(string \<rightharpoonup> (string \<rightharpoonup> string)) \<Rightarrow> string \<times> string \<Rightarrow> string \<times> string" where
  "relabel m = (\<lambda>(dim, v).
     case m dim of
       None \<Rightarrow> (dim, v)
     | Some r \<Rightarrow> (case r v of None \<Rightarrow> (dim, v) | Some t \<Rightarrow> (dim, t)))"

text \<open>
  Modelled from the spec: \<open>IamDataFrame.rename\<close>, missing from the sources. It relabels
  every row of the dataset at the reference, puts the result into the store as a new object
  and returns the reference to it; when it is asked to check for duplicates, rows that
  fall together are an error.
\<close>

definition IamDataFrame_rename ::
  "store \<times> nat \<Rightarrow> (string \<rightharpoonup> (string \<rightharpoonup> string)) \<Rightarrow> bool \<Rightarrow> rename_error + store \<times> nat" where
  "IamDataFrame_rename df m check_duplicates =
     (let (s, a) = df; renamed = map (map (relabel m)) (s ! a) in
      if check_duplicates \<and> \<not> distinct renamed then Inl DuplicateRows
      else Inr (s @ [renamed], length s))"

section \<open>Shapes of input\<close>

text \<open>
  A loaded document has the shape the loader can read when it is a dict with an
  \<open>aggregate\<close> key whose value can be iterated and yields dicts with at least one entry.
\<close>

fun nonempty_dict :: "pyval \<Rightarrow> bool" where
  "nonempty_dict (PDict (kv # kvs)) = True"
| "nonempty_dict v = False"

definition readable :: "pyval \<Rightarrow> bool" where
  "readable doc =
     (case py_getitem doc ''aggregate'' of
        Inl e \<Rightarrow> False
      | Inr agg \<Rightarrow> (case py_list agg of Inl e \<Rightarrow> False | Inr items \<Rightarrow> list_all nonempty_dict items))"

section \<open>Sample inputs\<close>

text \<open>
  The element of \<open>aggregate\<close> that stands for an item and the entry that construction
  receives for it; a file system with one configuration file, and the relative paths that
  are files in it; and the documents used to
  exercise the loader: the one of the end-to-end example, one with conflicts in both target
  names and components, one without a dimension, and one with an element of two keys.
\<close>

definition entry_of :: "AggregationItem \<Rightarrow> pyval" where
  "entry_of item = PDict [(PStr (name item), PList (map PStr (components item)))]"

definition raw_item :: "AggregationItem \<Rightarrow> pyval \<times> pyval" where
  "raw_item item = (PStr (name item), PList (map PStr (components item)))"

definition sample_env :: "pyval \<Rightarrow> env" where
  "sample_env doc =
     \<lparr>open_load = (\<lambda>p. if p = ''/work/mappings/sector.yaml'' then Inr doc
                       else Inl (''[Errno 2] No such file or directory: '' @ quoted p)),
      get_relative_path = (\<lambda>p. if take 6 p = ''/work/'' then drop 6 p else p)\<rparr>"

definition sample_files :: "string \<Rightarrow> bool" where
  "sample_files p \<longleftrightarrow> p = ''mappings/sector.yaml'' \<or> p = ''m.yaml''"

definition sector_doc :: pyval where
  "sector_doc = PDict
     [(PStr ''dimension'', PStr ''Sector''),
      (PStr ''aggregate'', PList
         [PDict [(PStr ''Fossil'', PList [PStr ''Coal'', PStr ''Oil'', PStr ''Gas''])],
          PDict [(PStr ''Renewable'', PList [PStr ''Solar'', PStr ''Wind''])]])]"

definition sector_aggregator :: Aggregator where
  "sector_aggregator =
     \<lparr>file' = ''mappings/sector.yaml'', dimension = ''Sector'',
      mapping = [\<lparr>name = ''Fossil'', components = [''Coal'', ''Oil'', ''Gas'']\<rparr>,
                 \<lparr>name = ''Renewable'', components = [''Solar'', ''Wind'']\<rparr>]\<rparr>"

definition conflict_doc :: pyval where
  "conflict_doc = PDict
     [(PStr ''dimension'', PStr ''Sector''),
      (PStr ''aggregate'', PList
         [PDict [(PStr ''Fossil'', PList [PStr ''Coal'', PStr ''Oil''])],
          PDict [(PStr ''Fossil'', PList [PStr ''Coal'', PStr ''Gas''])]])]"

definition no_dimension_doc :: pyval where
  "no_dimension_doc = PDict
     [(PStr ''aggregate'', PList
         [PDict [(PStr ''Fossil'', PList [PStr ''Coal'', PStr ''Oil''])]])]"

definition two_key_doc :: pyval where
  "two_key_doc = PDict
     [(PStr ''dimension'', PStr ''Sector''),
      (PStr ''aggregate'', PList
         [PDict [(PStr ''Fossil'', PList [PStr ''Coal'', PStr ''Oil'', PStr ''Gas'']),
                 (PStr ''Other'', PList [PStr ''Peat''])],
          PDict [(PStr ''Renewable'', PList [PStr ''Solar'', PStr ''Wind''])]])]"

section \<open>Counting and duplicates\<close>

lemma Counter_add_keys: "set (map fst (Counter_add kvs x)) = insert x (set (map fst kvs))"
  by (induction kvs x rule: Counter_add.induct) auto

lemma Counter_add_distinct: "distinct (map fst kvs) \<Longrightarrow> distinct (map fst (Counter_add kvs x))"
proof (induction kvs x rule: Counter_add.induct)
  case (1 x)
  then show ?case by simp
next
  case (2 k n kvs x)
  then show ?case using Counter_add_keys[of kvs x] by auto
qed

lemma Counter_add_lookup:
  "map_of (Counter_add kvs x) y =
     (if y = x then Some (Suc (case map_of kvs x of None \<Rightarrow> 0 | Some n \<Rightarrow> n)) else map_of kvs y)"
  by (induction kvs x rule: Counter_add.induct) auto

lemma Counter_fold_distinct:
  "distinct (map fst kvs) \<Longrightarrow> distinct (map fst (foldl Counter_add kvs xs))"
  by (induction xs arbitrary: kvs) (auto simp: Counter_add_distinct)

lemma Counter_fold_lookup:
  "map_of (foldl Counter_add kvs xs) y =
     (if y \<in> set xs then Some (count_list xs y + (case map_of kvs y of None \<Rightarrow> 0 | Some n \<Rightarrow> n))
      else map_of kvs y)"
  by (induction xs arbitrary: kvs) (auto simp: Counter_add_lookup)

lemma Counter_distinct: "distinct (map fst (Counter xs))"
  by (simp add: Counter_def Counter_fold_distinct)

lemma Counter_lookup:
  "map_of (Counter xs) y = (if y \<in> set xs then Some (count_list xs y) else None)"
  by (simp add: Counter_def Counter_fold_lookup)

lemma Counter_member: "(y, n) \<in> set (Counter xs) \<longleftrightarrow> y \<in> set xs \<and> n = count_list xs y"
proof -
  have "(y, n) \<in> set (Counter xs) \<longleftrightarrow> map_of (Counter xs) y = Some n"
    using Counter_distinct[of xs] by simp
  then show ?thesis by (auto simp: Counter_lookup)
qed


lemma set_find_duplicates: "set (find_duplicates xs) = {x. 1 < count_list xs x}"
proof (rule set_eqI)
  fix x
  have "x \<in> set (find_duplicates xs) \<longleftrightarrow> (\<exists>n. (x, n) \<in> set (Counter xs) \<and> 1 < n)"
    by (force simp: find_duplicates_def)
  also have "\<dots> \<longleftrightarrow> x \<in> set xs \<and> 1 < count_list xs x"
    by (simp add: Counter_member)
  also have "\<dots> \<longleftrightarrow> 1 < count_list xs x"
    using count_list_0_iff[of xs x] by auto
  finally show "x \<in> set (find_duplicates xs) \<longleftrightarrow> x \<in> {x. 1 < count_list xs x}" by simp
qed

lemma distinct_count_le1: "distinct xs \<longleftrightarrow> (\<forall>x. count_list xs x \<le> 1)"
proof (induction xs)
  case Nil
  then show ?case by simp
next
  case (Cons a xs)
  show ?case
  proof
    assume "distinct (a # xs)"
    with Cons show "\<forall>x. count_list (a # xs) x \<le> 1" by auto
  next
    assume h: "\<forall>x. count_list (a # xs) x \<le> 1"
    then have "count_list (a # xs) a \<le> 1" by blast
    then have "a \<notin> set xs" by (simp add: count_list_0_iff)
    moreover have "\<forall>x. count_list xs x \<le> 1"
    proof
      fix x show "count_list xs x \<le> 1" using h[rule_format, of x] by (simp split: if_splits)
    qed
    ultimately show "distinct (a # xs)" using Cons by simp
  qed
qed

lemma find_duplicates_empty: "find_duplicates xs = [] \<longleftrightarrow> distinct xs"
proof -
  have "find_duplicates xs = [] \<longleftrightarrow> set (find_duplicates xs) = {}" by simp
  also have "\<dots> \<longleftrightarrow> (\<forall>x. count_list xs x \<le> 1)" by (auto simp: set_find_duplicates not_less[symmetric])
  finally show ?thesis by (simp add: distinct_count_le1)
qed

lemma distinct_find_duplicates: "distinct (find_duplicates xs)"
  unfolding find_duplicates_def using Counter_distinct[of xs] by (simp add: distinct_map_filter)

lemma extend_all_concat: "extend_all acc v = acc @ concat (map components v)"
  by (induction v arbitrary: acc) auto

lemma assign_components_lookup:
  "assign_components d n cs c = (if c \<in> set cs then Some n else d c)"
  by (induction cs arbitrary: d) auto

lemma assign_items_lookup:
  "assign_items d items c =
     (case filter (\<lambda>item. c \<in> set (components item)) items of
        [] \<Rightarrow> d c
      | item # rest \<Rightarrow> Some (name (last (item # rest))))"
proof (induction items arbitrary: d)
  case Nil
  then show ?case by simp
next
  case (Cons a items)
  show ?case
    by (simp add: Cons.IH assign_components_lookup split: list.splits)
qed


section \<open>Validation and construction on well-typed input\<close>

lemma validate_items_eq:
  "validate_items xs info t =
     (if distinct xs then Inr ()
      else (case data info ''file'' of
              None \<Rightarrow> Inl (Uncaught (KeyError ''file''))
            | Some f \<Rightarrow> Inl (PydanticCustomError (AggregationMappingConflict t (find_duplicates xs) f))))"
  by (simp add: validate_items_def find_duplicates_empty)

lemma validate_strs_typed: "validate_strs l i (map PStr ss) = Inr ss"
  by (induction ss arbitrary: i) auto

lemma AggregationItem_init_typed:
  "AggregationItem_init l (PStr n) (PList (map PStr cs)) = Inr \<lparr>name = n, components = cs\<rparr>"
  by (simp add: AggregationItem_init_def validate_strs_typed)

lemma validate_mapping_list_typed: "validate_mapping_list l i (map raw_item items) = Inr items"
  by (induction items arbitrary: i) (auto simp: raw_item_def AggregationItem_init_typed)

lemma mapping_validators_eq:
  assumes "data info ''file'' = Some f"
  shows "mapping_validators v info =
     (if \<not> distinct (map name v) then
        Inl (PydanticCustomError (AggregationMappingConflict ''target'' (find_duplicates (map name v)) f))
      else if \<not> distinct (concat (map components v)) then
        Inl (PydanticCustomError
               (AggregationMappingConflict ''component'' (find_duplicates (concat (map components v))) f))
      else Inr v)"
  using assms
  by (simp add: mapping_validators_def validate_target_names_def validate_components_def
      validate_items_eq extend_all_concat)

lemma mapping_validators_no_file:
  assumes "data info ''file'' = None"
  shows "mapping_validators v info =
     (if distinct (map name v) \<and> distinct (concat (map components v)) then Inr v
      else Inl (Uncaught (KeyError ''file'')))"
  using assms
  by (simp add: mapping_validators_def validate_target_names_def validate_components_def
      validate_items_eq extend_all_concat)

lemma Aggregator_init_validated:
  assumes "validate_mapping_list [Attr ''mapping''] 0 m = Inr items"
  shows "Aggregator_init is_file f d m =
     (if \<not> is_file f then
        (if distinct (map name items) \<and> distinct (concat (map components items))
         then Inl (ValidationError
                (path_not_file [Attr ''file''] # errors_of (validate_str [Attr ''dimension''] d)))
         else Inl (Uncaught (KeyError ''file'')))
      else if \<not> distinct (map name items) then
        Inl (ValidationError (errors_of (validate_str [Attr ''dimension''] d) @
          [custom [Attr ''mapping'']
             (AggregationMappingConflict ''target'' (find_duplicates (map name items)) f)]))
      else if \<not> distinct (concat (map components items)) then
        Inl (ValidationError (errors_of (validate_str [Attr ''dimension''] d) @
          [custom [Attr ''mapping'']
             (AggregationMappingConflict ''component''
                (find_duplicates (concat (map components items))) f)]))
      else (case validate_str [Attr ''dimension''] d of
              Inl es \<Rightarrow> Inl (ValidationError es)
            | Inr d' \<Rightarrow> Inr \<lparr>file' = f, dimension = d', mapping = items\<rparr>))"
proof (cases "validate_str [Attr ''dimension''] d")
  case (Inl es)
  then show ?thesis
    by (cases "is_file f")
      (simp_all add: Aggregator_init_def assms mapping_validators_eq[where f = f]
        mapping_validators_no_file)
next
  case (Inr d')
  then show ?thesis
    by (cases "is_file f")
      (simp_all add: Aggregator_init_def assms mapping_validators_eq[where f = f]
        mapping_validators_no_file)
qed

lemmas Aggregator_init_eq = Aggregator_init_validated[OF validate_mapping_list_typed]

lemma Aggregator_init_Inr:
  assumes "Aggregator_init is_file f d m = Inr agg"
  shows "validate_mapping_list [Attr ''mapping''] 0 m = Inr (mapping agg) \<and>
         validate_str [Attr ''dimension''] d = Inr (dimension agg) \<and> file' agg = f \<and> is_file f \<and>
         distinct (map name (mapping agg)) \<and> distinct (concat (map components (mapping agg)))"
proof -
  from assms obtain items where v: "validate_mapping_list [Attr ''mapping''] 0 m = Inr items"
    unfolding Aggregator_init_def Let_def
    by (cases "validate_mapping_list [Attr ''mapping''] 0 m") auto
  note eq = Aggregator_init_validated[OF v, of is_file f d]
  from assms have *: "is_file f" "distinct (map name items)"
    "distinct (concat (map components items))"
    unfolding eq by (auto split: if_splits)
  with assms obtain d' where "validate_str [Attr ''dimension''] d = Inr d'"
    "agg = \<lparr>file' = f, dimension = d', mapping = items\<rparr>"
    unfolding eq by (auto split: sum.splits)
  then show ?thesis using v * by simp
qed

section \<open>Reading the entries of a file\<close>

lemma mapping_entry_first: "mapping_entry (PDict ((k, v) # rest)) = Inr (k, v)"
  by (simp add: mapping_entry_def)

lemma mapping_entry_entry_of: "mapping_entry (entry_of item) = Inr (raw_item item)"
  by (simp add: mapping_entry_def entry_of_def raw_item_def)

lemma mapping_entry_Inr_iff: "(\<exists>d. mapping_entry item = Inr d) \<longleftrightarrow> nonempty_dict item"
proof (cases item)
  case (PStr s)
  then show ?thesis by (cases s) (simp_all add: mapping_entry_def)
next
  case (PBytes b)
  then show ?thesis by (cases b) (simp_all add: mapping_entry_def)
next
  case (PList xs)
  then show ?thesis by (cases xs) (simp_all add: mapping_entry_def)
next
  case (PTuple xs)
  then show ?thesis by (cases xs) (simp_all add: mapping_entry_def)
next
  case (PSet xs)
  then show ?thesis by (cases xs) (simp_all add: mapping_entry_def)
next
  case (PDict kvs)
  then show ?thesis by (cases kvs) (auto simp: mapping_entry_def)
qed (simp_all add: mapping_entry_def)

lemma append_entries_append:
  "append_entries acc (xs @ ys) =
     (case append_entries acc xs of Inl e \<Rightarrow> Inl e | Inr acc' \<Rightarrow> append_entries acc' ys)"
  by (induction xs arbitrary: acc) (auto split: sum.splits)

lemma append_entries_typed: "append_entries acc (map entry_of items) = Inr (acc @ map raw_item items)"
  by (induction items arbitrary: acc) (auto simp: mapping_entry_entry_of)

lemma append_entries_fails:
  "\<not> list_all nonempty_dict items \<Longrightarrow> \<exists>e. append_entries acc items = Inl e"
proof (induction items arbitrary: acc)
  case Nil
  then show ?case by simp
next
  case (Cons x items)
  show ?case
  proof (cases "mapping_entry x")
    case (Inl e)
    then show ?thesis by simp
  next
    case (Inr d)
    then have "nonempty_dict x" using mapping_entry_Inr_iff[of x] by blast
    with Cons.prems have "\<not> list_all nonempty_dict items" by simp
    from Cons.IH[OF this] Inr show ?thesis by simp
  qed
qed

lemma try_body_unreadable:
  assumes "open_load w f = Inr doc" "\<not> readable doc"
  shows "\<exists>e. try_body w f = Inl e"
proof (cases "py_getitem doc ''aggregate''")
  case (Inl e)
  then show ?thesis using assms by (simp add: try_body_def)
next
  case agg: (Inr agg)
  show ?thesis
  proof (cases "py_list agg")
    case (Inl e)
    then show ?thesis using assms agg by (simp add: try_body_def)
  next
    case (Inr items)
    with assms agg have "\<not> list_all nonempty_dict items" by (simp add: readable_def)
    from append_entries_fails[OF this, of "[]"] obtain e where "append_entries [] items = Inl e" ..
    then show ?thesis using assms agg Inr by (simp add: try_body_def)
  qed
qed

lemma from_file_try_fails:
  "try_body w f = Inl e \<Longrightarrow>
   from_file w f = Inl (ValueError (str_exn e @ '' in '' @ get_relative_path w f))"
  by (simp add: from_file_def)

lemma from_file_typed:
  assumes "open_load w f = Inr (PDict kvs)"
    and "map_of kvs (PStr ''aggregate'') = Some (PList (map entry_of items))"
    and "map_of kvs (PStr ''dimension'') = Some d"
  shows "from_file w f =
    Aggregator_init (\<lambda>p. p = get_relative_path w f) (get_relative_path w f) d (map raw_item items)"
  using assms by (simp add: from_file_def try_body_def append_entries_typed)

section \<open>The rename mapping as a function of the items\<close>

lemma assign_items_absent:
  "c \<notin> set (concat (map components items)) \<Longrightarrow> assign_items d items c = d c"
  by (induction items arbitrary: d) (auto simp: assign_components_lookup)

lemma assign_items_distinct:
  "distinct (concat (map components items)) \<Longrightarrow> item \<in> set items \<Longrightarrow>
   c \<in> set (components item) \<Longrightarrow> assign_items d items c = Some (name item)"
proof (induction items arbitrary: d)
  case Nil
  then show ?case by simp
next
  case (Cons a items)
  show ?case
  proof (cases "c \<in> set (components a)")
    case True
    with Cons.prems(1) have absent: "c \<notin> set (concat (map components items))" by auto
    have "item = a"
    proof (rule ccontr)
      assume "item \<noteq> a"
      with Cons.prems(2) have "item \<in> set items" by simp
      with Cons.prems(3) have "c \<in> set (concat (map components items))" by auto
      with absent show False by simp
    qed
    then show ?thesis using True by (simp add: assign_items_absent[OF absent] assign_components_lookup)
  next
    case False
    with Cons.prems have "item \<in> set items" by auto
    moreover from Cons.prems(1) have "distinct (concat (map components items))" by simp
    ultimately show ?thesis using Cons.IH Cons.prems(3) by simp
  qed
qed

lemma rename_mapping_None:
  "rename_mapping self v = None \<longleftrightarrow> v \<notin> set (concat (map components (mapping self)))"
proof -
  have "assign_items d items v = None \<longleftrightarrow> d v = None \<and> v \<notin> set (concat (map components items))"
    for d items
    by (induction items arbitrary: d) (auto simp: assign_components_lookup)
  then show ?thesis by (simp add: rename_mapping_def)
qed

lemma line_conflicts_append: "line_conflicts (es @ es') = line_conflicts es @ line_conflicts es'"
  by (induction es rule: line_conflicts.induct) auto

lemma line_conflicts_dimension: "line_conflicts (errors_of (validate_str l d)) = []"
  by (cases d) auto

section \<open>Claims\<close>

subsection \<open>Errors of the loader\<close>

text \<open>
  C1, as the code has it. The claim that every failure of \<open>from_file\<close> is re-raised as the
  generic load error does not hold for a conflict found by the validation of the
  construction: the constructor is called after the \<open>try\<close> block, and its
  \<open>ValidationError\<close> leaves \<open>from_file\<close> as it is. The document below has the target
  \<open>Fossil\<close> twice.
\<close>

theorem from_file_conflict_counterexample:
  "from_file (sample_env conflict_doc) ''/work/mappings/sector.yaml'' =
     Inl (ValidationError
       [custom [Attr ''mapping'']
          (AggregationMappingConflict ''target'' [''Fossil''] ''mappings/sector.yaml'')])"
  by code_simp

text \<open>
  C1, amended. A failure inside the \<open>try\<close> block is re-raised as a \<open>ValueError\<close> whose
  message is the text of the failure, then \<open>in\<close>, then the relative path of the file:
  so for a file that cannot be opened or parsed, for a document without the \<open>aggregate\<close>
  key, and for any document of a shape the loader cannot read. A conflict of target names or
  of components is raised by the constructor as a \<open>ValidationError\<close> that carries the kind
  of conflict, the duplicates and the relative path of the file, and is not wrapped.
\<close>

theorem from_file_failures:
  "(open_load w f = Inl msg \<longrightarrow>
      from_file w f = Inl (ValueError (msg @ '' in '' @ get_relative_path w f)))
   \<and> (open_load w f = Inr (PDict kvs) \<and> map_of kvs (PStr ''aggregate'') = None \<longrightarrow>
      from_file w f =
        Inl (ValueError (quoted ''aggregate'' @ '' in '' @ get_relative_path w f)))
   \<and> (open_load w f = Inr doc \<and> \<not> readable doc \<longrightarrow>
      (\<exists>e. try_body w f = Inl e \<and>
           from_file w f = Inl (ValueError (str_exn e @ '' in '' @ get_relative_path w f))))
   \<and> (open_load w f = Inr (PDict kvs) \<and>
      map_of kvs (PStr ''aggregate'') = Some (PList (map entry_of items)) \<and>
      map_of kvs (PStr ''dimension'') = Some (PStr d) \<and>
      \<not> distinct (map name items) \<longrightarrow>
      from_file w f =
        Inl (ValidationError
          [custom [Attr ''mapping'']
             (AggregationMappingConflict ''target'' (find_duplicates (map name items))
                (get_relative_path w f))]))
   \<and> (open_load w f = Inr (PDict kvs) \<and>
      map_of kvs (PStr ''aggregate'') = Some (PList (map entry_of items)) \<and>
      map_of kvs (PStr ''dimension'') = Some (PStr d) \<and>
      distinct (map name items) \<and> \<not> distinct (concat (map components items)) \<longrightarrow>
      from_file w f =
        Inl (ValidationError
          [custom [Attr ''mapping'']
             (AggregationMappingConflict ''component''
                (find_duplicates (concat (map components items))) (get_relative_path w f))]))"
proof (intro conjI impI)
  assume "open_load w f = Inl msg"
  then show "from_file w f = Inl (ValueError (msg @ '' in '' @ get_relative_path w f))"
    by (simp add: from_file_def try_body_def)
next
  assume "open_load w f = Inr (PDict kvs) \<and> map_of kvs (PStr ''aggregate'') = None"
  then show "from_file w f =
      Inl (ValueError (quoted ''aggregate'' @ '' in '' @ get_relative_path w f))"
    by (simp add: from_file_def try_body_def)
next
  assume "open_load w f = Inr doc \<and> \<not> readable doc"
  then obtain e where "try_body w f = Inl e" using try_body_unreadable by blast
  then show "\<exists>e. try_body w f = Inl e \<and>
      from_file w f = Inl (ValueError (str_exn e @ '' in '' @ get_relative_path w f))"
    by (auto simp: from_file_try_fails)
next
  assume a: "open_load w f = Inr (PDict kvs) \<and>
      map_of kvs (PStr ''aggregate'') = Some (PList (map entry_of items)) \<and>
      map_of kvs (PStr ''dimension'') = Some (PStr d) \<and>
      \<not> distinct (map name items)"
  then have "from_file w f =
      Aggregator_init (\<lambda>p. p = get_relative_path w f) (get_relative_path w f) (PStr d)
        (map raw_item items)"
    by (simp add: from_file_typed)
  with a show "from_file w f =
        Inl (ValidationError
          [custom [Attr ''mapping'']
             (AggregationMappingConflict ''target'' (find_duplicates (map name items))
                (get_relative_path w f))])"
    by (simp add: Aggregator_init_eq)
next
  assume a: "open_load w f = Inr (PDict kvs) \<and>
      map_of kvs (PStr ''aggregate'') = Some (PList (map entry_of items)) \<and>
      map_of kvs (PStr ''dimension'') = Some (PStr d) \<and>
      distinct (map name items) \<and> \<not> distinct (concat (map components items))"
  then have "from_file w f =
      Aggregator_init (\<lambda>p. p = get_relative_path w f) (get_relative_path w f) (PStr d)
        (map raw_item items)"
    by (simp add: from_file_typed)
  with a show "from_file w f =
        Inl (ValidationError
          [custom [Attr ''mapping'']
             (AggregationMappingConflict ''component''
                (find_duplicates (concat (map components items))) (get_relative_path w f))])"
    by (simp add: Aggregator_init_eq)
qed

theorem from_file_failures_witness:
  "open_load (sample_env sector_doc) ''/work/mappings/none.yaml'' =
     Inl (''[Errno 2] No such file or directory: '' @ quoted ''/work/mappings/none.yaml'')
   \<and> from_file (sample_env sector_doc) ''/work/mappings/none.yaml'' =
     Inl (ValueError (''[Errno 2] No such file or directory: '' @
        quoted ''/work/mappings/none.yaml'' @ '' in mappings/none.yaml''))
   \<and> from_file (sample_env (PDict [(PStr ''dimension'', PStr ''Sector'')]))
        ''/work/mappings/sector.yaml'' =
     Inl (ValueError (quoted ''aggregate'' @ '' in mappings/sector.yaml''))
   \<and> \<not> readable (PDict [(PStr ''dimension'', PStr ''Sector''),
                          (PStr ''aggregate'', PList [PStr ''Fossil''])])
   \<and> from_file (sample_env (PDict [(PStr ''dimension'', PStr ''Sector''),
                                    (PStr ''aggregate'', PList [PStr ''Fossil''])]))
        ''/work/mappings/sector.yaml'' =
     Inl (ValueError (quoted ''str'' @ '' object has no attribute '' @ quoted ''values'' @
        '' in mappings/sector.yaml''))
   \<and> from_file (sample_env conflict_doc) ''/work/mappings/sector.yaml'' =
     Inl (ValidationError
       [custom [Attr ''mapping'']
          (AggregationMappingConflict ''target'' [''Fossil''] ''mappings/sector.yaml'')])
   \<and> from_file (sample_env (PDict [(PStr ''dimension'', PStr ''Sector''),
        (PStr ''aggregate'', PList
           [PDict [(PStr ''Fossil'', PList [PStr ''Coal'', PStr ''Oil''])],
            PDict [(PStr ''Other'', PList [PStr ''Coal''])]])]))
        ''/work/mappings/sector.yaml'' =
     Inl (ValidationError
       [custom [Attr ''mapping'']
          (AggregationMappingConflict ''component'' [''Coal''] ''mappings/sector.yaml'')])"
proof -
  let ?p = "''/work/mappings/sector.yaml''"
  let ?bad = "PDict [(PStr ''dimension'', PStr ''Sector''),
                     (PStr ''aggregate'', PList [PStr ''Fossil''])]"
  let ?both = "[\<lparr>name = ''Fossil'', components = [''Coal'', ''Oil'']\<rparr>,
                \<lparr>name = ''Fossil'', components = [''Coal'', ''Gas'']\<rparr>]"
  let ?comp = "[\<lparr>name = ''Fossil'', components = [''Coal'', ''Oil'']\<rparr>,
                \<lparr>name = ''Other'', components = [''Coal'']\<rparr>]"
  let ?comp_kvs = "[(PStr ''dimension'', PStr ''Sector''),
        (PStr ''aggregate'', PList
           [PDict [(PStr ''Fossil'', PList [PStr ''Coal'', PStr ''Oil''])],
            PDict [(PStr ''Other'', PList [PStr ''Coal''])]])]"
  have rel: "get_relative_path (sample_env doc) ?p = ''mappings/sector.yaml''" for doc
    by (simp add: sample_env_def)
  have opn: "open_load (sample_env doc) ?p = Inr doc" for doc
    by (simp add: sample_env_def)
  have a: "open_load (sample_env sector_doc) ''/work/mappings/none.yaml'' =
     Inl (''[Errno 2] No such file or directory: '' @ quoted ''/work/mappings/none.yaml'')"
    by (simp add: sample_env_def)
  have a': "get_relative_path (sample_env sector_doc) ''/work/mappings/none.yaml'' =
     ''mappings/none.yaml''"
    by (simp add: sample_env_def)
  have c: "\<not> readable ?bad" by (simp add: readable_def)
  have c': "try_body (sample_env ?bad) ?p =
     Inl (AttributeError (quoted ''str'' @ '' object has no attribute '' @ quoted ''values''))"
    by (simp add: try_body_def opn mapping_entry_def)
  have d1: "find_duplicates [''Fossil'', ''Fossil''] = [''Fossil'']"
    by (simp add: find_duplicates_def Counter_def)
  have d2: "find_duplicates [''Coal'', ''Oil'', ''Coal''] = [''Coal'']"
    by (simp add: find_duplicates_def Counter_def)
  have t1: "from_file (sample_env sector_doc) ''/work/mappings/none.yaml'' =
     Inl (ValueError (''[Errno 2] No such file or directory: '' @
        quoted ''/work/mappings/none.yaml'' @ '' in mappings/none.yaml''))"
    using from_file_failures[of "sample_env sector_doc" "''/work/mappings/none.yaml''"
        "''[Errno 2] No such file or directory: '' @ quoted ''/work/mappings/none.yaml''"] a
    by (simp add: a')
  have t2: "from_file (sample_env (PDict [(PStr ''dimension'', PStr ''Sector'')])) ?p =
     Inl (ValueError (quoted ''aggregate'' @ '' in mappings/sector.yaml''))"
    using from_file_failures[of "sample_env (PDict [(PStr ''dimension'', PStr ''Sector'')])" ?p _
        "[(PStr ''dimension'', PStr ''Sector'')]"]
    by (simp add: opn rel)
  have t3: "from_file (sample_env ?bad) ?p =
     Inl (ValueError (quoted ''str'' @ '' object has no attribute '' @ quoted ''values'' @
        '' in mappings/sector.yaml''))"
    using from_file_failures[of "sample_env ?bad" ?p _ _ ?bad] c
    by (simp add: opn rel c')
  have t4: "from_file (sample_env conflict_doc) ?p =
     Inl (ValidationError
       [custom [Attr ''mapping'']
          (AggregationMappingConflict ''target'' [''Fossil''] ''mappings/sector.yaml'')])"
    using from_file_failures[of "sample_env conflict_doc" ?p _
        "[(PStr ''dimension'', PStr ''Sector''),
          (PStr ''aggregate'', PList (map entry_of ?both))]" _ ?both "''Sector''"]
    by (simp add: opn rel conflict_doc_def entry_of_def d1)
  have t5: "from_file (sample_env (PDict ?comp_kvs)) ?p =
     Inl (ValidationError
       [custom [Attr ''mapping'']
          (AggregationMappingConflict ''component'' [''Coal''] ''mappings/sector.yaml'')])"
    using from_file_failures[of "sample_env (PDict ?comp_kvs)" ?p _ ?comp_kvs _ ?comp "''Sector''"]
    by (simp add: opn rel entry_of_def d2)
  from a c t1 t2 t3 t4 t5 show ?thesis by (simp only: simp_thms)
qed

text \<open>
  A document that has \<open>aggregate\<close> but no \<open>dimension\<close>: the lookup of
  \<open>dimension\<close> stands after the \<open>try\<close> block, and its \<open>KeyError\<close> is not wrapped.
\<close>

lemma from_file_no_dimension:
  "from_file (sample_env no_dimension_doc) ''/work/mappings/sector.yaml'' =
     Inl (Uncaught (KeyError ''dimension''))"
  by code_simp

subsection \<open>The rename mapping of a valid Aggregator\<close>

text \<open>
  C2. For every Aggregator that passed the validation of its construction, every component
  \<open>c\<close> of every item of its mapping is sent by \<open>rename_mapping\<close> to the name of that item.
\<close>

theorem rename_mapping_components:
  assumes "Aggregator_init is_file f d m = Inr agg"
  shows "\<forall>item \<in> set (mapping agg). \<forall>c \<in> set (components item).
           rename_mapping agg c = Some (name item)"
  using Aggregator_init_Inr[OF assms]
  by (auto simp: rename_mapping_def intro: assign_items_distinct)

theorem rename_mapping_components_witness:
  "Aggregator_init sample_files ''mappings/sector.yaml'' (PStr ''Sector'')
     [(PStr ''Fossil'', PList [PStr ''Coal'', PStr ''Oil'', PStr ''Gas'']),
      (PStr ''Renewable'', PList [PStr ''Solar'', PStr ''Wind''])] = Inr sector_aggregator
   \<and> rename_mapping sector_aggregator ''Coal'' = Some ''Fossil''
   \<and> rename_mapping sector_aggregator ''Oil'' = Some ''Fossil''
   \<and> rename_mapping sector_aggregator ''Gas'' = Some ''Fossil''
   \<and> rename_mapping sector_aggregator ''Solar'' = Some ''Renewable''
   \<and> rename_mapping sector_aggregator ''Wind'' = Some ''Renewable''"
proof -
  have h: "Aggregator_init sample_files ''mappings/sector.yaml'' (PStr ''Sector'')
     [(PStr ''Fossil'', PList [PStr ''Coal'', PStr ''Oil'', PStr ''Gas'']),
      (PStr ''Renewable'', PList [PStr ''Solar'', PStr ''Wind''])] = Inr sector_aggregator"
    by code_simp
  from rename_mapping_components[OF h] h show ?thesis
    by (simp add: sector_aggregator_def)
qed

subsection \<open>Conflicts\<close>

text \<open>
  C3. Let the entries of \<open>mapping\<close> pass type validation as a list of items in which a
  target name occurs more than once. When the \<open>file\<close> of the Aggregator is a file,
  construction fails with a \<open>ValidationError\<close> whose entry for \<open>mapping\<close> is the conflict of
  type \<open>target\<close>; its duplicates are exactly the names that occur more than once. (A
  \<open>dimension\<close> that is not a string adds its own entry in front.) When the path is no file,
  the field \<open>file\<close> is missing from \<open>info.data\<close>, and the lookup \<open>info.data["file"]\<close> that
  \<open>_validate_items\<close> makes while it puts the conflict together raises a \<open>KeyError\<close>, which
  leaves the constructor in place of the conflict. When the names are pairwise distinct the
  validator of the target names returns the items.
\<close>

theorem duplicate_target_names:
  assumes "validate_mapping_list [Attr ''mapping''] 0 m = Inr items"
  shows "(\<not> distinct (map name items) \<longrightarrow>
      Aggregator_init is_file f d m =
        (if is_file f then
           Inl (ValidationError (errors_of (validate_str [Attr ''dimension''] d) @
             [custom [Attr ''mapping'']
                (AggregationMappingConflict ''target'' (find_duplicates (map name items)) f)]))
         else Inl (Uncaught (KeyError ''file'')))
      \<and> set (find_duplicates (map name items)) = {n. 1 < count_list (map name items) n})
   \<and> (distinct (map name items) \<longrightarrow> validate_target_names items info = Inr items)"
  by (simp add: Aggregator_init_validated[OF assms] set_find_duplicates validate_target_names_def
      validate_items_eq)

theorem duplicate_target_names_witness:
  "validate_mapping_list [Attr ''mapping''] 0
        [(PStr ''Fossil'', PList [PStr ''Coal'']),
         (PStr ''Other'', PList [PStr ''Peat'']),
         (PStr ''Fossil'', PList [PStr ''Oil''])] =
      Inr [\<lparr>name = ''Fossil'', components = [''Coal'']\<rparr>,
           \<lparr>name = ''Other'', components = [''Peat'']\<rparr>,
           \<lparr>name = ''Fossil'', components = [''Oil'']\<rparr>]
   \<and> \<not> distinct (map name [\<lparr>name = ''Fossil'', components = [''Coal'']\<rparr>,
                          \<lparr>name = ''Other'', components = [''Peat'']\<rparr>,
                          \<lparr>name = ''Fossil'', components = [''Oil'']\<rparr>])
   \<and> sample_files ''m.yaml''
   \<and> Aggregator_init sample_files ''m.yaml'' (PStr ''Sector'')
        [(PStr ''Fossil'', PList [PStr ''Coal'']),
         (PStr ''Other'', PList [PStr ''Peat'']),
         (PStr ''Fossil'', PList [PStr ''Oil''])] =
      Inl (ValidationError
        [custom [Attr ''mapping''] (AggregationMappingConflict ''target'' [''Fossil''] ''m.yaml'')])
   \<and> \<not> sample_files ''nope.yaml''
   \<and> Aggregator_init sample_files ''nope.yaml'' (PStr ''Sector'')
        [(PStr ''Fossil'', PList [PStr ''Coal'']),
         (PStr ''Other'', PList [PStr ''Peat'']),
         (PStr ''Fossil'', PList [PStr ''Oil''])] =
      Inl (Uncaught (KeyError ''file''))
   \<and> validate_mapping_list [Attr ''mapping''] 0
        [(PStr ''Fossil'', PList [PStr ''Coal'', PStr ''Oil'', PStr ''Gas'']),
         (PStr ''Renewable'', PList [PStr ''Solar'', PStr ''Wind''])] =
      Inr (mapping sector_aggregator)
   \<and> distinct (map name (mapping sector_aggregator))
   \<and> validate_target_names (mapping sector_aggregator) \<lparr>data = [''file'' \<mapsto> ''m.yaml'']\<rparr> =
       Inr (mapping sector_aggregator)"
proof -
  let ?m = "[(PStr ''Fossil'', PList [PStr ''Coal'']),
         (PStr ''Other'', PList [PStr ''Peat'']),
         (PStr ''Fossil'', PList [PStr ''Oil''])]"
  let ?items = "[\<lparr>name = ''Fossil'', components = [''Coal'']\<rparr>,
                 \<lparr>name = ''Other'', components = [''Peat'']\<rparr>,
                 \<lparr>name = ''Fossil'', components = [''Oil'']\<rparr>]"
  let ?m' = "[(PStr ''Fossil'', PList [PStr ''Coal'', PStr ''Oil'', PStr ''Gas'']),
         (PStr ''Renewable'', PList [PStr ''Solar'', PStr ''Wind''])]"
  have v: "validate_mapping_list [Attr ''mapping''] 0 ?m = Inr ?items"
    by (simp add: AggregationItem_init_def)
  have v': "validate_mapping_list [Attr ''mapping''] 0 ?m' = Inr (mapping sector_aggregator)"
    by (simp add: AggregationItem_init_def sector_aggregator_def)
  have dups: "find_duplicates [''Fossil'', ''Other'', ''Fossil''] = [''Fossil'']"
    by (simp add: find_duplicates_def Counter_def)
  have n: "\<not> distinct (map name ?items)" by simp
  have d: "distinct (map name (mapping sector_aggregator))" by (simp add: sector_aggregator_def)
  have fs: "sample_files ''m.yaml''" "\<not> sample_files ''nope.yaml''"
    by (simp_all add: sample_files_def)
  have a: "Aggregator_init sample_files ''m.yaml'' (PStr ''Sector'') ?m =
      Inl (ValidationError
        [custom [Attr ''mapping''] (AggregationMappingConflict ''target'' [''Fossil''] ''m.yaml'')])"
    using duplicate_target_names[OF v, of sample_files "''m.yaml''" "PStr ''Sector''"] n fs
    by (simp add: dups)
  have b: "Aggregator_init sample_files ''nope.yaml'' (PStr ''Sector'') ?m =
      Inl (Uncaught (KeyError ''file''))"
    using duplicate_target_names[OF v, of sample_files "''nope.yaml''" "PStr ''Sector''"] n fs
    by simp
  have c: "validate_target_names (mapping sector_aggregator) \<lparr>data = [''file'' \<mapsto> ''m.yaml'']\<rparr> =
       Inr (mapping sector_aggregator)"
    using duplicate_target_names[OF v', of _ _ _ "\<lparr>data = [''file'' \<mapsto> ''m.yaml'']\<rparr>"] d
    by simp
  from v n fs a b v' d c show ?thesis by (simp only: simp_thms)
qed

text \<open>
  C4, as the code has it. A mapping in which a source label occurs twice need not fail with a
  conflict of type \<open>component\<close>: when a target name is repeated as well, the conflict
  reported is the one of type \<open>target\<close>. Here \<open>Coal\<close> stands under two items that are both
  named \<open>Fossil\<close>, and the file exists.
\<close>

theorem duplicate_components_counterexample:
  "Aggregator_init sample_files ''m.yaml'' (PStr ''Sector'')
     [(PStr ''Fossil'', PList [PStr ''Coal'', PStr ''Oil'']),
      (PStr ''Fossil'', PList [PStr ''Coal'', PStr ''Gas''])] =
   Inl (ValidationError
     [custom [Attr ''mapping''] (AggregationMappingConflict ''target'' [''Fossil''] ''m.yaml'')])"
  by code_simp

text \<open>
  C4, amended. Let the \<open>file\<close> of the Aggregator be a file and let the entries of \<open>mapping\<close>
  pass type validation as a list of items. When the target names are pairwise distinct and a
  source label occurs more than once in the concatenation of the components of all items, in
  two items or twice in one, construction fails with a \<open>ValidationError\<close> whose entry for
  \<open>mapping\<close> is the conflict of type \<open>component\<close>; its duplicates are exactly the labels that
  occur more than once. The validator of the components by itself raises this conflict.
\<close>

theorem duplicate_components:
  assumes "validate_mapping_list [Attr ''mapping''] 0 m = Inr items"
    and "is_file f"
    and "distinct (map name items)"
    and "\<not> distinct (concat (map components items))"
  shows "Aggregator_init is_file f d m =
           Inl (ValidationError (errors_of (validate_str [Attr ''dimension''] d) @
             [custom [Attr ''mapping'']
                (AggregationMappingConflict ''component''
                   (find_duplicates (concat (map components items))) f)]))
         \<and> set (find_duplicates (concat (map components items))) =
             {c. 1 < count_list (concat (map components items)) c}
         \<and> validate_components items \<lparr>data = [''file'' \<mapsto> f]\<rparr> =
             Inl (PydanticCustomError
                (AggregationMappingConflict ''component''
                   (find_duplicates (concat (map components items))) f))"
  using assms(2-)
  by (simp add: Aggregator_init_validated[OF assms(1)] set_find_duplicates validate_components_def
      validate_items_eq extend_all_concat)

theorem duplicate_components_witness:
  "validate_mapping_list [Attr ''mapping''] 0
        [(PStr ''Fossil'', PList [PStr ''Coal'', PStr ''Oil'', PStr ''Coal'']),
         (PStr ''Other'', PList [PStr ''Peat'', PStr ''Oil''])] =
      Inr [\<lparr>name = ''Fossil'', components = [''Coal'', ''Oil'', ''Coal'']\<rparr>,
           \<lparr>name = ''Other'', components = [''Peat'', ''Oil'']\<rparr>]
   \<and> sample_files ''m.yaml''
   \<and> distinct (map name [\<lparr>name = ''Fossil'', components = [''Coal'', ''Oil'', ''Coal'']\<rparr>,
                       \<lparr>name = ''Other'', components = [''Peat'', ''Oil'']\<rparr>])
   \<and> \<not> distinct (concat (map components
          [\<lparr>name = ''Fossil'', components = [''Coal'', ''Oil'', ''Coal'']\<rparr>,
           \<lparr>name = ''Other'', components = [''Peat'', ''Oil'']\<rparr>]))
   \<and> Aggregator_init sample_files ''m.yaml'' (PStr ''Sector'')
        [(PStr ''Fossil'', PList [PStr ''Coal'', PStr ''Oil'', PStr ''Coal'']),
         (PStr ''Other'', PList [PStr ''Peat'', PStr ''Oil''])] =
      Inl (ValidationError
        [custom [Attr ''mapping'']
           (AggregationMappingConflict ''component'' [''Coal'', ''Oil''] ''m.yaml'')])"
proof -
  let ?m = "[(PStr ''Fossil'', PList [PStr ''Coal'', PStr ''Oil'', PStr ''Coal'']),
         (PStr ''Other'', PList [PStr ''Peat'', PStr ''Oil''])]"
  let ?items = "[\<lparr>name = ''Fossil'', components = [''Coal'', ''Oil'', ''Coal'']\<rparr>,
                 \<lparr>name = ''Other'', components = [''Peat'', ''Oil'']\<rparr>]"
  have v: "validate_mapping_list [Attr ''mapping''] 0 ?m = Inr ?items"
    by (simp add: AggregationItem_init_def)
  have fs: "sample_files ''m.yaml''" by (simp add: sample_files_def)
  have dups: "find_duplicates [''Coal'', ''Oil'', ''Coal'', ''Peat'', ''Oil''] = [''Coal'', ''Oil'']"
    by (simp add: find_duplicates_def Counter_def)
  have h1: "distinct (map name ?items)" by simp
  have h2: "\<not> distinct (concat (map components ?items))" by simp
  have a: "Aggregator_init sample_files ''m.yaml'' (PStr ''Sector'') ?m =
      Inl (ValidationError
        [custom [Attr ''mapping'']
           (AggregationMappingConflict ''component'' [''Coal'', ''Oil''] ''m.yaml'')])"
    using duplicate_components[where is_file = sample_files and f = "''m.yaml''"
        and d = "PStr ''Sector''", OF v fs h1 h2]
    by (simp add: dups)
  from v fs h1 h2 a show ?thesis by (simp only: simp_thms)
qed

subsection \<open>Items\<close>

text \<open>
  C5, as the code has it. The fields of an item are declared \<open>str\<close> and \<open>list[str]\<close>
  with no constraint on their length: an item with an empty name is constructed, and so is
  one with no components.
\<close>

theorem empty_item_counterexample:
  "AggregationItem_init [] (PStr '''') (PList [PStr ''Coal'']) =
     Inr \<lparr>name = '''', components = [''Coal'']\<rparr>
   \<and> AggregationItem_init [] (PStr ''Fossil'') (PList []) =
     Inr \<lparr>name = ''Fossil'', components = []\<rparr>"
  by (simp add: AggregationItem_init_def)

text \<open>
  C5, amended. The construction of an item from a string and a list of strings succeeds and
  gives the item with this name and these components, whatever their lengths: with an empty
  name, and with no components. It does not look at other items.
\<close>

theorem AggregationItem_init_any_length:
  "AggregationItem_init l (PStr n) (PList (map PStr cs)) = Inr \<lparr>name = n, components = cs\<rparr>
   \<and> AggregationItem_init l (PStr '''') (PList (map PStr cs)) =
       Inr \<lparr>name = '''', components = cs\<rparr>
   \<and> AggregationItem_init l (PStr n) (PList []) = Inr \<lparr>name = n, components = []\<rparr>"
  using AggregationItem_init_typed[of l n cs] AggregationItem_init_typed[of l "''''" cs]
    AggregationItem_init_typed[of l n "[]"]
  by simp

theorem AggregationItem_init_any_length_witness:
  "AggregationItem_init [Attr ''mapping'', Index 0] (PStr '''') (PList []) =
     Inr \<lparr>name = '''', components = []\<rparr>
   \<and> AggregationItem_init [Attr ''mapping'', Index 0] (PStr '''')
       (PList [PStr ''Coal'', PStr ''Oil'']) =
     Inr \<lparr>name = '''', components = [''Coal'', ''Oil'']\<rparr>
   \<and> AggregationItem_init [Attr ''mapping'', Index 0] (PStr ''Fossil'') (PList []) =
     Inr \<lparr>name = ''Fossil'', components = []\<rparr>"
  using AggregationItem_init_any_length[of "[Attr ''mapping'', Index 0]" "''''" "[]"]
    AggregationItem_init_any_length[of "[Attr ''mapping'', Index 0]" "''Fossil''"
      "[''Coal'', ''Oil'']"]
  by simp

text \<open>
  In lax mode a bytes object stands for the string it decodes to and a tuple or a set for the
  list of its elements; a value of another type is refused.
\<close>

lemma AggregationItem_init_lax:
  "AggregationItem_init [] (PBytes ''Fossil'') (PTuple [PStr ''Coal'', PBytes ''Oil'']) =
     Inr \<lparr>name = ''Fossil'', components = [''Coal'', ''Oil'']\<rparr>
   \<and> AggregationItem_init [] (PBytes [CHR 0xC3]) (PSet []) = Inl [string_unicode [Attr ''name'']]
   \<and> AggregationItem_init [] (PInt 3) (PStr ''Coal'') =
     Inl [string_type [Attr ''name''], list_type [Attr ''components'']]"
  by code_simp

subsection \<open>Applying the mapping\<close>

text \<open>
  C6. \<open>apply\<close> returns what the dataset's \<open>rename\<close> returns for the dict that maps
  the dimension to \<open>rename_mapping\<close> and for \<open>check_duplicates=False\<close>. With the
  dataset of the spec, the result is a new dataset in which the labels of that dimension
  that are keys of \<open>rename_mapping\<close> are replaced and every other label is as before; a
  label that is a component of no item is not a key. The dataset handed in is still in the
  store as it was.
\<close>

theorem apply_rename:
  assumes "a < length s"
  shows "snd (apply' rename self df) = rename df [dimension self \<mapsto> rename_mapping self] False
    \<and> snd (apply' IamDataFrame_rename self (s, a)) =
        Inr (s @ [map (map (\<lambda>(dim, v).
                 if dim = dimension self
                 then (dim, case rename_mapping self v of None \<Rightarrow> v | Some t \<Rightarrow> t)
                 else (dim, v))) (s ! a)], length s)
    \<and> (s @ [map (map (relabel [dimension self \<mapsto> rename_mapping self])) (s ! a)]) ! a = s ! a
    \<and> (v \<notin> set (concat (map components (mapping self))) \<longrightarrow>
         relabel [dimension self \<mapsto> rename_mapping self] (dim', v) = (dim', v))"
proof -
  have r: "relabel [dimension self \<mapsto> rename_mapping self] =
        (\<lambda>(dim, v). if dim = dimension self
                 then (dim, case rename_mapping self v of None \<Rightarrow> v | Some t \<Rightarrow> t)
                 else (dim, v))"
    by (auto simp: relabel_def fun_eq_iff split: option.splits)
  have "v \<notin> set (concat (map components (mapping self))) \<Longrightarrow>
         relabel [dimension self \<mapsto> rename_mapping self] (dim', v) = (dim', v)"
    using rename_mapping_None[of self v] by (simp add: r)
  then show ?thesis using assms
    by (simp add: apply'_def IamDataFrame_rename_def r nth_append)
qed

theorem apply_rename_witness:
  "(0::nat) < length [[[(''Sector'', ''Coal'')], [(''Sector'', ''Solar'')], [(''Sector'', ''Nuclear'')]]]
   \<and> snd (apply' IamDataFrame_rename sector_aggregator
       ([[[(''Sector'', ''Coal'')], [(''Sector'', ''Solar'')], [(''Sector'', ''Nuclear'')]]], 0)) =
     Inr ([[[(''Sector'', ''Coal'')], [(''Sector'', ''Solar'')], [(''Sector'', ''Nuclear'')]],
           [[(''Sector'', ''Fossil'')], [(''Sector'', ''Renewable'')], [(''Sector'', ''Nuclear'')]]], 1)
   \<and> ''Nuclear'' \<notin> set (concat (map components (mapping sector_aggregator)))
   \<and> relabel [dimension sector_aggregator \<mapsto> rename_mapping sector_aggregator]
        (''Sector'', ''Nuclear'') = (''Sector'', ''Nuclear'')"
proof -
  have h: "(0::nat) < length [[[(''Sector'', ''Coal'')], [(''Sector'', ''Solar'')], [(''Sector'', ''Nuclear'')]]]"
    by simp
  have n: "''Nuclear'' \<notin> set (concat (map components (mapping sector_aggregator)))"
    by (simp add: sector_aggregator_def)
  have m: "rename_mapping sector_aggregator ''Coal'' = Some ''Fossil''"
    "rename_mapping sector_aggregator ''Solar'' = Some ''Renewable''"
    "rename_mapping sector_aggregator ''Nuclear'' = None"
    "dimension sector_aggregator = ''Sector''"
    by (simp_all add: rename_mapping_def sector_aggregator_def)
  note t = apply_rename[OF h, where rename = IamDataFrame_rename and self = sector_aggregator
        and df = "([[[(''Sector'', ''Coal'')], [(''Sector'', ''Solar'')], [(''Sector'', ''Nuclear'')]]], 0)"
        and v = "''Nuclear''" and dim' = "''Sector''"]
  have a: "snd (apply' IamDataFrame_rename sector_aggregator
       ([[[(''Sector'', ''Coal'')], [(''Sector'', ''Solar'')], [(''Sector'', ''Nuclear'')]]], 0)) =
     Inr ([[[(''Sector'', ''Coal'')], [(''Sector'', ''Solar'')], [(''Sector'', ''Nuclear'')]],
           [[(''Sector'', ''Fossil'')], [(''Sector'', ''Renewable'')], [(''Sector'', ''Nuclear'')]]], 1)"
    using t[THEN conjunct2, THEN conjunct1] by (simp add: m)
  have b: "relabel [dimension sector_aggregator \<mapsto> rename_mapping sector_aggregator]
        (''Sector'', ''Nuclear'') = (''Sector'', ''Nuclear'')"
    using t[THEN conjunct2, THEN conjunct2, THEN conjunct2] n by simp
  from h n a b show ?thesis by (simp only: simp_thms)
qed

subsection \<open>Elements with several keys\<close>

text \<open>
  C7. Of an element of \<open>aggregate\<close> the loader takes the first key as the name and the
  value of that key as the components. It does not check that there is one key only: a file
  in which an element has more keys is loaded as the file in which that element has the first
  key alone.
\<close>

theorem first_key_only:
  assumes "open_load w f = Inr (PDict kvs)"
    and "map_of kvs (PStr ''aggregate'') = Some (PList (pre @ PDict ((k, v) # rest) # post))"
    and "open_load w' f = Inr (PDict kvs')"
    and "map_of kvs' (PStr ''aggregate'') = Some (PList (pre @ PDict [(k, v)] # post))"
    and "map_of kvs' (PStr ''dimension'') = map_of kvs (PStr ''dimension'')"
    and "get_relative_path w' f = get_relative_path w f"
  shows "mapping_entry (PDict ((k, v) # rest)) = Inr (k, v) \<and> from_file w f = from_file w' f"
proof -
  have "append_entries [] (pre @ PDict ((k, v) # rest) # post) =
        append_entries [] (pre @ PDict [(k, v)] # post)"
    by (simp add: append_entries_append mapping_entry_first split: sum.splits)
  then have eq: "append_entries [] (pre @ PDict ((k, v) # rest) # post) =
        append_entries [] (pre @ PDict [(k, v)] # post)" .
  have "from_file w f = from_file w' f"
  proof (cases "append_entries [] (pre @ PDict [(k, v)] # post)")
    case (Inl e)
    then show ?thesis using assms eq by (simp add: from_file_def try_body_def)
  next
    case (Inr ml)
    then show ?thesis using assms eq
      by (simp add: from_file_def try_body_def split: option.splits)
  qed
  then show ?thesis by (simp add: mapping_entry_first)
qed

theorem first_key_only_witness:
  "from_file (sample_env two_key_doc) ''/work/mappings/sector.yaml'' =
     from_file (sample_env sector_doc) ''/work/mappings/sector.yaml''
   \<and> from_file (sample_env sector_doc) ''/work/mappings/sector.yaml'' = Inr sector_aggregator
   \<and> mapping_entry (PDict [(PStr ''Fossil'', PList [PStr ''Coal'', PStr ''Oil'', PStr ''Gas'']),
                            (PStr ''Other'', PList [PStr ''Peat''])]) =
       Inr (PStr ''Fossil'', PList [PStr ''Coal'', PStr ''Oil'', PStr ''Gas''])"
proof -
  let ?p = "''/work/mappings/sector.yaml''"
  let ?tail = "[PDict [(PStr ''Renewable'', PList [PStr ''Solar'', PStr ''Wind''])]]"
  let ?k = "PStr ''Fossil''" and ?v = "PList [PStr ''Coal'', PStr ''Oil'', PStr ''Gas'']"
  let ?rest = "[(PStr ''Other'', PList [PStr ''Peat''])]"
  let ?kvs = "[(PStr ''dimension'', PStr ''Sector''),
      (PStr ''aggregate'', PList ([] @ PDict ((?k, ?v) # ?rest) # ?tail))]"
  let ?kvs' = "[(PStr ''dimension'', PStr ''Sector''),
      (PStr ''aggregate'', PList ([] @ PDict [(?k, ?v)] # ?tail))]"
  have h1: "open_load (sample_env two_key_doc) ?p = Inr (PDict ?kvs)"
    by (simp add: sample_env_def two_key_doc_def)
  have h2: "map_of ?kvs (PStr ''aggregate'') = Some (PList ([] @ PDict ((?k, ?v) # ?rest) # ?tail))"
    by simp
  have h3: "open_load (sample_env sector_doc) ?p = Inr (PDict ?kvs')"
    by (simp add: sample_env_def sector_doc_def)
  have h4: "map_of ?kvs' (PStr ''aggregate'') = Some (PList ([] @ PDict [(?k, ?v)] # ?tail))"
    by simp
  have h5: "map_of ?kvs' (PStr ''dimension'') = map_of ?kvs (PStr ''dimension'')"
    by simp
  have h6: "get_relative_path (sample_env sector_doc) ?p = get_relative_path (sample_env two_key_doc) ?p"
    by (simp add: sample_env_def)
  have ok: "from_file (sample_env sector_doc) ?p = Inr sector_aggregator"
    by code_simp
  from first_key_only[OF h1 h2 h3 h4 h5 h6] ok show ?thesis by simp
qed

subsection \<open>The Aggregator is only read\<close>

text \<open>
  C8. The Aggregator after \<open>apply\<close> is the Aggregator before it, whatever the dataset's
  \<open>rename\<close> does. \<open>rename_mapping\<close> is computed from the field \<open>mapping\<close> whenever it is
  asked for: it does not depend on the other fields, and after a change of \<open>mapping\<close> it
  is the mapping of the new items.
\<close>

theorem apply_keeps_aggregator:
  "fst (apply' rename self df) = self
   \<and> rename_mapping (fst (apply' rename self df)) = rename_mapping self
   \<and> rename_mapping \<lparr>file' = f, dimension = d, mapping = mapping self\<rparr> = rename_mapping self
   \<and> rename_mapping (self\<lparr>mapping := m\<rparr>) = assign_items Map.empty m"
  by (simp add: apply'_def rename_mapping_def)

theorem apply_keeps_aggregator_witness:
  "fst (apply' IamDataFrame_rename sector_aggregator ([[[(''Sector'', ''Coal'')]]], 0)) =
     sector_aggregator
   \<and> rename_mapping (sector_aggregator\<lparr>mapping := [\<lparr>name = ''Solid'', components = [''Coal'']\<rparr>]\<rparr>)
       ''Coal'' = Some ''Solid''"
  using apply_keeps_aggregator[of IamDataFrame_rename sector_aggregator
      "([[[(''Sector'', ''Coal'')]]], 0)" _ _ "[\<lparr>name = ''Solid'', components = [''Coal'']\<rparr>]"]
  by simp

subsection \<open>Order of the validators\<close>

text \<open>
  C9. Let the entries of \<open>mapping\<close> pass type validation as a list of items with a repeated
  target name and a repeated source label. The validators of \<open>mapping\<close> end with the failure
  of the first, the validator of the target names: the validator of the components is not
  reached and the two conflicts are never reported together. When the \<open>file\<close> of the
  Aggregator is a file, the only conflict that construction reports is the one of type
  \<open>target\<close>, and it differs from what the validator of the components would raise. When the
  path is no file, what the first validator raises is the \<open>KeyError\<close> of the lookup
  \<open>info.data["file"]\<close>, and it leaves the constructor in place of the conflict.
\<close>

theorem target_conflict_only:
  assumes "validate_mapping_list [Attr ''mapping''] 0 m = Inr items"
    and "\<not> distinct (map name items)"
    and "\<not> distinct (concat (map components items))"
  shows "Aggregator_init is_file f d m =
           (if is_file f then
              Inl (ValidationError (errors_of (validate_str [Attr ''dimension''] d) @
                [custom [Attr ''mapping'']
                   (AggregationMappingConflict ''target'' (find_duplicates (map name items)) f)]))
            else Inl (Uncaught (KeyError ''file'')))
         \<and> (is_file f \<longrightarrow> conflicts_of (Aggregator_init is_file f d m) =
               [AggregationMappingConflict ''target'' (find_duplicates (map name items)) f])
         \<and> mapping_validators items info = validate_target_names items info
         \<and> mapping_validators items \<lparr>data = [''file'' \<mapsto> f]\<rparr> \<noteq>
             validate_components items \<lparr>data = [''file'' \<mapsto> f]\<rparr>"
  using assms(2-)
  by (simp add: Aggregator_init_validated[OF assms(1)] line_conflicts_append
      line_conflicts_dimension mapping_validators_def validate_target_names_def
      validate_components_def validate_items_eq extend_all_concat split: option.splits)

theorem target_conflict_only_witness:
  "validate_mapping_list [Attr ''mapping''] 0
        [(PStr ''Fossil'', PList [PStr ''Coal'', PStr ''Oil'']),
         (PStr ''Fossil'', PList [PStr ''Coal'', PStr ''Gas''])] =
      Inr [\<lparr>name = ''Fossil'', components = [''Coal'', ''Oil'']\<rparr>,
           \<lparr>name = ''Fossil'', components = [''Coal'', ''Gas'']\<rparr>]
   \<and> \<not> distinct (map name [\<lparr>name = ''Fossil'', components = [''Coal'', ''Oil'']\<rparr>,
                          \<lparr>name = ''Fossil'', components = [''Coal'', ''Gas'']\<rparr>])
   \<and> \<not> distinct (concat (map components
          [\<lparr>name = ''Fossil'', components = [''Coal'', ''Oil'']\<rparr>,
           \<lparr>name = ''Fossil'', components = [''Coal'', ''Gas'']\<rparr>]))
   \<and> sample_files ''m.yaml''
   \<and> conflicts_of (Aggregator_init sample_files ''m.yaml'' (PInt 7)
        [(PStr ''Fossil'', PList [PStr ''Coal'', PStr ''Oil'']),
         (PStr ''Fossil'', PList [PStr ''Coal'', PStr ''Gas''])]) =
      [AggregationMappingConflict ''target'' [''Fossil''] ''m.yaml'']
   \<and> \<not> sample_files ''nope.yaml''
   \<and> Aggregator_init sample_files ''nope.yaml'' (PStr ''Sector'')
        [(PStr ''Fossil'', PList [PStr ''Coal'', PStr ''Oil'']),
         (PStr ''Fossil'', PList [PStr ''Coal'', PStr ''Gas''])] =
      Inl (Uncaught (KeyError ''file''))"
proof -
  let ?m = "[(PStr ''Fossil'', PList [PStr ''Coal'', PStr ''Oil'']),
         (PStr ''Fossil'', PList [PStr ''Coal'', PStr ''Gas''])]"
  let ?items = "[\<lparr>name = ''Fossil'', components = [''Coal'', ''Oil'']\<rparr>,
                 \<lparr>name = ''Fossil'', components = [''Coal'', ''Gas'']\<rparr>]"
  have v: "validate_mapping_list [Attr ''mapping''] 0 ?m = Inr ?items"
    by (simp add: AggregationItem_init_def)
  have dups: "find_duplicates [''Fossil'', ''Fossil''] = [''Fossil'']"
    by (simp add: find_duplicates_def Counter_def)
  have h1: "\<not> distinct (map name ?items)" by simp
  have h2: "\<not> distinct (concat (map components ?items))" by simp
  have fs: "sample_files ''m.yaml''" "\<not> sample_files ''nope.yaml''"
    by (simp_all add: sample_files_def)
  note t = target_conflict_only[OF v h1 h2, of sample_files "''m.yaml''" "PInt 7"]
  note t' = target_conflict_only[OF v h1 h2, of sample_files "''nope.yaml''" "PStr ''Sector''"]
  have a: "conflicts_of (Aggregator_init sample_files ''m.yaml'' (PInt 7) ?m) =
      [AggregationMappingConflict ''target'' [''Fossil''] ''m.yaml'']"
    using t[THEN conjunct2, THEN conjunct1] fs by (simp add: dups)
  have b: "Aggregator_init sample_files ''nope.yaml'' (PStr ''Sector'') ?m =
      Inl (Uncaught (KeyError ''file''))"
    using t'[THEN conjunct1] fs by simp
  from v h1 h2 fs a b show ?thesis by (simp only: simp_thms)
qed

subsection \<open>Later items overwrite earlier ones\<close>

text \<open>
  C10. As a function of an arbitrary list of items, also one that construction would reject,
  \<open>rename_mapping\<close> sends a source label to the name of the last item, in list order,
  whose components contain it, and knows no label that no item contains.
\<close>

theorem rename_mapping_last:
  "rename_mapping self c =
     (case filter (\<lambda>item. c \<in> set (components item)) (mapping self) of
        [] \<Rightarrow> None
      | item # rest \<Rightarrow> Some (name (last (item # rest))))"
  by (simp add: rename_mapping_def assign_items_lookup)

theorem rename_mapping_last_witness:
  "rename_mapping \<lparr>file' = ''m.yaml'', dimension = ''Sector'',
      mapping = [\<lparr>name = ''Fossil'', components = [''Coal'', ''Oil'']\<rparr>,
                 \<lparr>name = ''Other'', components = [''Coal'']\<rparr>]\<rparr> ''Coal'' = Some ''Other''"
  using rename_mapping_last[of "\<lparr>file' = ''m.yaml'', dimension = ''Sector'',
      mapping = [\<lparr>name = ''Fossil'', components = [''Coal'', ''Oil'']\<rparr>,
                 \<lparr>name = ''Other'', components = [''Coal'']\<rparr>]\<rparr>" "''Coal''"]
  by simp

end
